theory Spec2Isabelle
  imports Main "HOL-Library.Sublist"
begin

section \<open>Command extraction\<close>

text \<open>
  The bot of \<^verbatim>\<open>main.ts\<close> exists in two variants: the hostname variant
  (\<^verbatim>\<open>src/main.ts\<close>, store key \<^verbatim>\<open>SERVER_HOSTNAME\<close>) and the URL variant (the second
  source file, store key \<^verbatim>\<open>serverURL\<close>). Definitions that differ between the two carry
  the suffix \<open>_url\<close> for the URL variant; definitions without a counterpart are shared
  verbatim by both files.
\<close>

datatype commandType = HELP | MCSTATUS | INVALID

text \<open>The string enum \<^verbatim>\<open>replyErrors\<close>: each member is its string value.\<close>

definition REDIS_FAIL_GET :: string where
  "REDIS_FAIL_GET = ''redis_fail_get''"

definition REDIS_NOT_STRING :: string where
  "REDIS_NOT_STRING = ''redis_not_string''"

definition MC_QUERY_FAIL :: string where
  "MC_QUERY_FAIL = ''mc_query_fail''"

text \<open>
  \<^verbatim>\<open>String.prototype.indexOf(needle)\<close>: the index of the first occurrence of the needle,
  searching from position 0, or \<open>-1\<close> when there is none. The search walks the text from
  the left and compares the needle against each position; \<open>indexOfFrom\<close> carries the
  current position.
\<close>

fun indexOfFrom :: "string \<Rightarrow> string \<Rightarrow> nat \<Rightarrow> int" where
  "indexOfFrom [] needle i = (if needle = [] then int i else - 1)"
| "indexOfFrom (c # cs) needle i =
     (if prefix needle (c # cs) then int i else indexOfFrom cs needle (Suc i))"

definition indexOf :: "string \<Rightarrow> string \<Rightarrow> int" where
  "indexOf message needle = indexOfFrom message needle 0"

definition extractCommand :: "string \<Rightarrow> commandType" where
  "extractCommand message =
     (if indexOf message ''/help'' \<noteq> - 1 then HELP
      else if indexOf message ''/mcstatus'' \<noteq> - 1 then MCSTATUS
      else INVALID)"

section \<open>Events and reply operations\<close>

text \<open>
  The message of a message event, by its \<^verbatim>\<open>type\<close> field. Only a text message carries
  a text.
\<close>

datatype event_message =
    TextEventMessage string
  | ImageEventMessage
  | VideoEventMessage
  | AudioEventMessage
  | LocationEventMessage
  | FileEventMessage
  | StickerEventMessage

datatype event_type =
  Follow | Unfollow | Join | Leave | MemberJoined | MemberLeft | Postback | Beacon
  | AccountLink | Things

text \<open>
  A webhook event, by its \<^verbatim>\<open>type\<close> field: a message event (type \<^verbatim>\<open>"message"\<close>) with its
  reply token and message, or an event of another type.
\<close>

datatype webhook_event =
    MessageEvent (replyToken: string) (message: event_message)
  | NonMessageEvent event_type

text \<open>
  The promise that \<^verbatim>\<open>lineClient.replyMessage(replyToken, {type: "text", text})\<close> returns:
  one text message sent against one reply token.
\<close>

datatype reply_op = ReplyMessage (op_token: string) (op_text: string)

definition linePromiseReply :: "webhook_event \<Rightarrow> string \<Rightarrow> reply_op" where
  "linePromiseReply event txt = ReplyMessage (replyToken event) txt"

section \<open>Status formatting\<close>

record SamplePlayer =
  name :: string
  player_id :: string

text \<open>
  The \<^verbatim>\<open>StatusResponse\<close> of the status query library, with the fields the formatter
  reads. The library is not part of the repository: its numbers (\<open>'n\<close>) and its
  description object (\<open>'d\<close>) are kept abstract. The version, the player counts, the
  sample of players and the description may each be \<^verbatim>\<open>null\<close> (\<open>None\<close>).
\<close>

record ('n, 'd) StatusResponse =
  host :: string
  port :: 'n
  version :: "string option"
  onlinePlayers :: "'n option"
  maxPlayers :: "'n option"
  samplePlayers :: "SamplePlayer list option"
  description :: "'d option"

text \<open>
  The conversions to a string that a template literal applies to a number and to the
  description object (its \<^verbatim>\<open>toString\<close> method) belong to the platform and to the
  library. They are parameters of the formatter.
\<close>

record ('n, 'd) conversions =
  numberToString :: "'n \<Rightarrow> string"
  descriptionToString :: "'d \<Rightarrow> string"

text \<open>
  A value interpolated into a template literal that may be \<^verbatim>\<open>null\<close>: \<^verbatim>\<open>null\<close> is
  rendered as the text \<^verbatim>\<open>null\<close>, any other value by its conversion.
\<close>

definition interpolate :: "('a \<Rightarrow> string) \<Rightarrow> 'a option \<Rightarrow> string" where
  "interpolate toString v = (case v of None \<Rightarrow> ''null'' | Some x \<Rightarrow> toString x)"

text \<open>
  \<^verbatim>\<open>Array.prototype.toString\<close> on an array of strings: the elements joined by commas.
\<close>

fun arrayToString :: "string list \<Rightarrow> string" where
  "arrayToString [] = []"
| "arrayToString [x] = x"
| "arrayToString (x # y # ys) = x @ '','' @ arrayToString (y # ys)"

text \<open>The expression interpolated after \<^verbatim>\<open>Players:\<close>, the same in both variants.\<close>

definition playersText :: "('n, 'd) StatusResponse \<Rightarrow> string" where
  "playersText srvResp =
     (if samplePlayers srvResp = None \<or> length (the (samplePlayers srvResp)) < 1
      then ''none''
      else arrayToString (map name (the (samplePlayers srvResp))))"

text \<open>
  The template literal of \<^verbatim>\<open>formatServerResponse\<close> in the hostname variant. Every line
  break of the source text and every \<^verbatim>\<open>\n\<close> escape is one newline character, and each
  line keeps its four leading blanks.
\<close>

definition formatServerResponse ::
  "('n, 'd) conversions \<Rightarrow> ('n, 'd) StatusResponse \<Rightarrow> string" where
  "formatServerResponse cv srvResp =
     ''\<newline>    Server address: '' @ host srvResp @ ''\<newline>\<newline>''
     @ ''    Server version: '' @ interpolate (\<lambda>v. v) (version srvResp) @ ''\<newline>\<newline>''
     @ ''    Online players: '' @ interpolate (numberToString cv) (onlinePlayers srvResp)
         @ ''/'' @ interpolate (numberToString cv) (maxPlayers srvResp) @ ''\<newline>''
     @ ''    Players: '' @ playersText srvResp @ ''\<newline>\<newline>''
     @ ''    Server Description: ''
         @ interpolate (descriptionToString cv) (description srvResp) @ '' \<newline>    ''"

text \<open>
  The URL variant takes a second, optional argument \<^verbatim>\<open>ngrokPort\<close> (\<open>None\<close> is
  \<^verbatim>\<open>undefined\<close>) and renders it on a line of its own.
\<close>

definition formatServerResponse_url ::
  "('n, 'd) conversions \<Rightarrow> ('n, 'd) StatusResponse \<Rightarrow> string option \<Rightarrow> string" where
  "formatServerResponse_url cv srvResp ngrokPort =
     ''\<newline>    Server address: '' @ host srvResp @ ''\<newline>\<newline>''
     @ ''    Server port: '' @ (if ngrokPort = None then ''25565'' else the ngrokPort)
         @ ''\<newline>''
     @ ''    Server version: '' @ interpolate (\<lambda>v. v) (version srvResp) @ ''\<newline>\<newline>''
     @ ''    Online players: '' @ interpolate (numberToString cv) (onlinePlayers srvResp)
         @ ''/'' @ interpolate (numberToString cv) (maxPlayers srvResp) @ ''\<newline>''
     @ ''    Players: '' @ playersText srvResp @ ''\<newline>\<newline>''
     @ ''    Server Description: ''
         @ interpolate (descriptionToString cv) (description srvResp) @ '' \<newline>    ''"

definition helpMessage :: string where
  "helpMessage =
     ''Command list:\<newline>''
     @ ''/help Display this message\<newline>''
     @ ''/mcstatus Check the status of my master'' @ [CHR 0x27]
     @ ''s Minecraft Server\<newline>''"

section \<open>The store\<close>

text \<open>
  The key-value store behind \<^verbatim>\<open>redisClient\<close>: the string values by key, and the fault
  the client currently reports, if any (\<open>None\<close>: the store answers). A callback of the
  client receives the pair \<open>(err, reply)\<close>, where \<open>None\<close> stands for \<^verbatim>\<open>null\<close>.
\<close>

record redis =
  store :: "string \<rightharpoonup> string"
  fault :: "string option"

definition redisGet :: "redis \<Rightarrow> string \<Rightarrow> string option \<times> string option" where
  "redisGet r key =
     (case fault r of
        Some e \<Rightarrow> (Some e, None)
      | None \<Rightarrow> (None, store r key))"

definition redisSet :: "redis \<Rightarrow> string \<Rightarrow> string \<Rightarrow> (string option \<times> string option) \<times> redis" where
  "redisSet r key v =
     (case fault r of
        Some e \<Rightarrow> ((Some e, None), r)
      | None \<Rightarrow> ((None, Some ''OK''), r\<lparr>store := (store r)(key \<mapsto> v)\<rparr>))"

section \<open>Reply orchestration\<close>

text \<open>
  The status query \<^verbatim>\<open>status\<close> of the library is a parameter: it answers with a
  \<open>StatusResponse\<close>, or its promise is rejected (\<open>None\<close>). Sending a reply is taken to
  succeed.

  \<open>mcstatusCallback\<close> is the callback handed to \<^verbatim>\<open>redisClient.get\<close> in the MCSTATUS
  branch, with the \<^verbatim>\<open>then\<close>/\<^verbatim>\<open>catch\<close> chain on the status promise resolved: it yields
  the reply it sends (\<open>Inr\<close>), or the exception that leaves it (\<open>Inl\<close>).
\<close>

datatype js_error = TypeError

definition mcstatusCallback ::
  "('n, 'd) conversions \<Rightarrow> (string \<Rightarrow> ('n, 'd) StatusResponse option) \<Rightarrow> webhook_event
     \<Rightarrow> string option \<Rightarrow> string option \<Rightarrow> js_error + reply_op" where
  "mcstatusCallback cv status webhookEvent err reply =
     (if err \<noteq> None
      then Inr (linePromiseReply webhookEvent (''Server is offline. Code: '' @ REDIS_FAIL_GET))
      else
        (case reply of
           Some s \<Rightarrow>
             (case status s of
                Some serverResponse \<Rightarrow>
                  Inr (linePromiseReply webhookEvent (formatServerResponse cv serverResponse))
              | None \<Rightarrow>
                  Inr (linePromiseReply webhookEvent
                         (''Server is offline. Code: '' @ MC_QUERY_FAIL)))
         | None \<Rightarrow>
             Inr (linePromiseReply webhookEvent
                    (''Server is offline. Code: '' @ REDIS_NOT_STRING))))"

text \<open>
  In the URL variant the stored string goes through \<^verbatim>\<open>new URL(reply)\<close> before the query
  is issued. The URL parser of the platform is a parameter \<open>newURL\<close>: it yields the parsed
  URL, or \<open>None\<close> where the constructor throws a \<^verbatim>\<open>TypeError\<close>. The arguments of
  \<^verbatim>\<open>status\<close> are evaluated before the promise chain exists, so that exception leaves the
  callback. The parameter \<open>status\<close> of this variant takes the host name and the port text
  of the URL; it stands for \<^verbatim>\<open>status(hostname, {port: parseInt(port)})\<close>.
\<close>

datatype URL = URL (hostname: string) (url_port: string)

definition mcstatusCallback_url ::
  "('n, 'd) conversions \<Rightarrow> (string \<Rightarrow> URL option)
     \<Rightarrow> (string \<Rightarrow> string \<Rightarrow> ('n, 'd) StatusResponse option) \<Rightarrow> webhook_event
     \<Rightarrow> string option \<Rightarrow> string option \<Rightarrow> js_error + reply_op" where
  "mcstatusCallback_url cv newURL status webhookEvent err reply =
     (if err \<noteq> None
      then Inr (linePromiseReply webhookEvent (''Server is offline. Code: '' @ REDIS_FAIL_GET))
      else
        (case reply of
           Some s \<Rightarrow>
             (case newURL s of
                None \<Rightarrow> Inl TypeError
              | Some u \<Rightarrow>
                  (case status (hostname u) (url_port u) of
                     Some serverResponse \<Rightarrow>
                       Inr (linePromiseReply webhookEvent
                              (formatServerResponse_url cv serverResponse (Some (url_port u))))
                   | None \<Rightarrow>
                       Inr (linePromiseReply webhookEvent
                              (''Server is offline. Code: '' @ MC_QUERY_FAIL))))
         | None \<Rightarrow>
             Inr (linePromiseReply webhookEvent
                    (''Server is offline. Code: '' @ REDIS_NOT_STRING))))"

text \<open>
  The function that \<^verbatim>\<open>handleEvent\<close> maps over the events. Its first component is the
  value it returns (\<open>None\<close> is \<^verbatim>\<open>undefined\<close>); its second component lists the outcomes
  of the store callbacks it has registered, which run after it has returned. In the
  MCSTATUS branch the \<^verbatim>\<open>return\<close> statements sit inside the callback, and the branch
  itself ends in \<^verbatim>\<open>break\<close>, so the mapped function returns \<^verbatim>\<open>undefined\<close> there.
\<close>

definition handleWebhookEvent ::
  "redis \<Rightarrow> ('n, 'd) conversions \<Rightarrow> (string \<Rightarrow> ('n, 'd) StatusResponse option) \<Rightarrow> webhook_event
     \<Rightarrow> reply_op option \<times> (js_error + reply_op) list" where
  "handleWebhookEvent r cv status webhookEvent =
     (case webhookEvent of
        MessageEvent tok msg \<Rightarrow>
          (case msg of
             TextEventMessage txt \<Rightarrow>
               (case extractCommand txt of
                  HELP \<Rightarrow> (Some (linePromiseReply webhookEvent helpMessage), [])
                | MCSTATUS \<Rightarrow>
                    (None,
                     [case redisGet r ''SERVER_HOSTNAME'' of
                        (err, reply) \<Rightarrow> mcstatusCallback cv status webhookEvent err reply])
                | INVALID \<Rightarrow>
                    (Some (linePromiseReply webhookEvent
                             ''Invalid command. Type /help to get some help''), []))
           | _ \<Rightarrow> (None, []))
      | NonMessageEvent _ \<Rightarrow> (None, []))"

definition handleWebhookEvent_url ::
  "redis \<Rightarrow> ('n, 'd) conversions \<Rightarrow> (string \<Rightarrow> URL option)
     \<Rightarrow> (string \<Rightarrow> string \<Rightarrow> ('n, 'd) StatusResponse option)
     \<Rightarrow> webhook_event \<Rightarrow> reply_op option \<times> (js_error + reply_op) list" where
  "handleWebhookEvent_url r cv newURL status webhookEvent =
     (case webhookEvent of
        MessageEvent tok msg \<Rightarrow>
          (case msg of
             TextEventMessage txt \<Rightarrow>
               (case extractCommand txt of
                  HELP \<Rightarrow> (Some (linePromiseReply webhookEvent helpMessage), [])
                | MCSTATUS \<Rightarrow>
                    (None,
                     [case redisGet r ''serverURL'' of
                        (err, reply) \<Rightarrow>
                          mcstatusCallback_url cv newURL status webhookEvent err reply])
                | INVALID \<Rightarrow>
                    (Some (linePromiseReply webhookEvent
                             ''Invalid command. Type /help to get some help''), []))
           | _ \<Rightarrow> (None, []))
      | NonMessageEvent _ \<Rightarrow> (None, []))"

text \<open>
  \<^verbatim>\<open>handleEvent\<close>: the array of the returned values, in the order of the events, and
  the outcomes of the registered callbacks.
\<close>

definition handleEvent ::
  "redis \<Rightarrow> ('n, 'd) conversions \<Rightarrow> (string \<Rightarrow> ('n, 'd) StatusResponse option)
     \<Rightarrow> webhook_event list
     \<Rightarrow> reply_op option list \<times> (js_error + reply_op) list" where
  "handleEvent r cv status events =
     (map (\<lambda>e. fst (handleWebhookEvent r cv status e)) events,
      concat (map (\<lambda>e. snd (handleWebhookEvent r cv status e)) events))"

definition handleEvent_url ::
  "redis \<Rightarrow> ('n, 'd) conversions \<Rightarrow> (string \<Rightarrow> URL option)
     \<Rightarrow> (string \<Rightarrow> string \<Rightarrow> ('n, 'd) StatusResponse option)
     \<Rightarrow> webhook_event list \<Rightarrow> reply_op option list \<times> (js_error + reply_op) list" where
  "handleEvent_url r cv newURL status events =
     (map (\<lambda>e. fst (handleWebhookEvent_url r cv newURL status e)) events,
      concat (map (\<lambda>e. snd (handleWebhookEvent_url r cv newURL status e)) events))"

text \<open>
  The webhook route: the promises handed to \<^verbatim>\<open>Promise.all\<close> are the entries of the
  array that are not \<^verbatim>\<open>undefined\<close>.
\<close>

definition webhook ::
  "redis \<Rightarrow> ('n, 'd) conversions \<Rightarrow> (string \<Rightarrow> ('n, 'd) StatusResponse option)
     \<Rightarrow> webhook_event list \<Rightarrow> reply_op option list" where
  "webhook r cv status events = filter (\<lambda>v. v \<noteq> None) (fst (handleEvent r cv status events))"

definition webhook_url ::
  "redis \<Rightarrow> ('n, 'd) conversions \<Rightarrow> (string \<Rightarrow> URL option)
     \<Rightarrow> (string \<Rightarrow> string \<Rightarrow> ('n, 'd) StatusResponse option)
     \<Rightarrow> webhook_event list \<Rightarrow> reply_op option list" where
  "webhook_url r cv newURL status events =
     filter (\<lambda>v. v \<noteq> None) (fst (handleEvent_url r cv newURL status events))"

section \<open>Registration\<close>

text \<open>
  A request to the registration route: the \<^verbatim>\<open>authorization\<close> header (\<open>None\<close>:
  \<^verbatim>\<open>undefined\<close>) and the string fields of the JSON body. The checked field is supplied
  in the body only.
\<close>

record request =
  authorization :: "string option"
  body :: "string \<rightharpoonup> string"

text \<open>One entry of the validation result: the field and the message of the failed check.\<close>

datatype validation_error = ValidationError string string

datatype res_body = Send string | Json "validation_error list"

text \<open>
  The response under construction: its status code, 200 until \<^verbatim>\<open>res.status\<close> sets it,
  and what has been sent.
\<close>

record response =
  statusCode :: nat
  sent :: "res_body option"

definition res0 :: response where
  "res0 = \<lparr>statusCode = 200, sent = None\<rparr>"

definition res_status :: "nat \<Rightarrow> response \<Rightarrow> response" where
  "res_status code res = res\<lparr>statusCode := code\<rparr>"

definition res_send :: "string \<Rightarrow> response \<Rightarrow> response" where
  "res_send txt res = res\<lparr>sent := Some (Send txt)\<rparr>"

definition res_json :: "validation_error list \<Rightarrow> response \<Rightarrow> response" where
  "res_json errors res = res\<lparr>sent := Some (Json errors)\<rparr>"

text \<open>
  \<^verbatim>\<open>res.header(field)\<close> with one argument sets the header fields that the argument has
  as enumerable properties. A number has none, so \<^verbatim>\<open>res.header(500)\<close> leaves the
  response as it is.
\<close>

definition res_header_number :: "nat \<Rightarrow> response \<Rightarrow> response" where
  "res_header_number n res = res"

text \<open>
  A middleware yields the response and whether it has called \<^verbatim>\<open>next()\<close>. The first
  argument of \<open>authMiddleware\<close> is \<^verbatim>\<open>process.env.AUTH_KEY\<close> (\<open>None\<close>: unset).
\<close>

definition authMiddleware :: "string option \<Rightarrow> request \<Rightarrow> response \<Rightarrow> response \<times> bool" where
  "authMiddleware AUTH_KEY req res =
     (if authorization req = None
      then (res_send ''Undefined auth header'' (res_status 400 res), False)
      else if authorization req \<noteq> AUTH_KEY
      then (res_send ''Invalid auth header'' (res_status 400 res), False)
      else (res, True))"

text \<open>
  The validation chains. The validators see the field as a string, the empty string
  when it is absent; \<^verbatim>\<open>isEmpty\<close> holds of the string of length 0; a failed validator
  adds one error with the message of the chain. The validator \<^verbatim>\<open>isURL\<close> with the options
  of the URL variant (protocol \<^verbatim>\<open>tcp\<close> required, host and port required) is a parameter.
\<close>

definition fieldValue :: "request \<Rightarrow> string \<Rightarrow> string" where
  "fieldValue req field = (case body req field of None \<Rightarrow> [] | Some v \<Rightarrow> v)"

definition isEmpty :: "string \<Rightarrow> bool" where
  "isEmpty str = (length str = 0)"

definition serverHostnameErrors :: "request \<Rightarrow> validation_error list" where
  "serverHostnameErrors req =
     (if \<not> (\<not> isEmpty (fieldValue req ''serverHostname''))
      then [ValidationError ''serverHostname'' ''Please provide server hostname'']
      else [])"

definition serverURLErrors :: "(string \<Rightarrow> bool) \<Rightarrow> request \<Rightarrow> validation_error list" where
  "serverURLErrors isURL req =
     (if \<not> (\<not> isEmpty (fieldValue req ''serverURL''))
      then [ValidationError ''serverURL'' ''Please provide a valid Minecraft server URL'']
      else [])
     @ (if \<not> isURL (fieldValue req ''serverURL'')
        then [ValidationError ''serverURL'' ''Please provide a valid Minecraft server URL'']
        else [])"

definition serverHostnameValidation :: "request \<Rightarrow> response \<Rightarrow> response \<times> bool" where
  "serverHostnameValidation req res =
     (let errors = serverHostnameErrors req
      in if \<not> (errors = []) then (res_json errors res, False) else (res, True))"

definition serverURLValidation :: "(string \<Rightarrow> bool) \<Rightarrow> request \<Rightarrow> response \<Rightarrow> response \<times> bool" where
  "serverURLValidation isURL req res =
     (let errors = serverURLErrors isURL req
      in if \<not> (errors = []) then (res_json errors res, False) else (res, True))"

text \<open>The callback of \<^verbatim>\<open>redisClient.set\<close> in the route handler.\<close>

definition setCallback :: "response \<Rightarrow> string option \<Rightarrow> string option \<Rightarrow> response" where
  "setCallback res err reply =
     (if err \<noteq> None
      then res_send ''Server Error'' (res_header_number 500 res)
      else res_send (case reply of None \<Rightarrow> [] | Some ok \<Rightarrow> ok) res)"

text \<open>
  The routes \<^verbatim>\<open>POST /setServerHostname\<close> and \<^verbatim>\<open>POST /serverURL\<close>: the authentication
  middleware, the validation, then the handler that writes the field to the store. They
  yield the response and the store afterwards. The handler runs only after the validation
  has accepted the field, which is then present in the body.
\<close>

definition setServerHostname :: "string option \<Rightarrow> redis \<Rightarrow> request \<Rightarrow> response \<times> redis" where
  "setServerHostname AUTH_KEY r req =
     (case authMiddleware AUTH_KEY req res0 of
        (res1, False) \<Rightarrow> (res1, r)
      | (res1, True) \<Rightarrow>
          (case serverHostnameValidation req res1 of
             (res2, False) \<Rightarrow> (res2, r)
           | (res2, True) \<Rightarrow>
               (case redisSet r ''SERVER_HOSTNAME'' (fieldValue req ''serverHostname'') of
                  ((err, reply), r') \<Rightarrow> (setCallback res2 err reply, r'))))"

definition serverURL :: "string option \<Rightarrow> (string \<Rightarrow> bool) \<Rightarrow> redis \<Rightarrow> request \<Rightarrow> response \<times> redis" where
  "serverURL AUTH_KEY isURL r req =
     (case authMiddleware AUTH_KEY req res0 of
        (res1, False) \<Rightarrow> (res1, r)
      | (res1, True) \<Rightarrow>
          (case serverURLValidation isURL req res1 of
             (res2, False) \<Rightarrow> (res2, r)
           | (res2, True) \<Rightarrow>
               (case redisSet r ''serverURL'' (fieldValue req ''serverURL'') of
                  ((err, reply), r') \<Rightarrow> (setCallback res2 err reply, r'))))"

section \<open>Notions used to state the properties\<close>

text \<open>
  The following definitions are not part of the program. They name the kinds of events
  the properties speak about, and the reply that the HELP and INVALID branches return.
\<close>

definition isMessageEvent :: "webhook_event \<Rightarrow> bool" where
  "isMessageEvent e = (case e of MessageEvent tok msg \<Rightarrow> True | NonMessageEvent k \<Rightarrow> False)"

definition isTextMessageEvent :: "webhook_event \<Rightarrow> bool" where
  "isTextMessageEvent e =
     (case e of MessageEvent tok (TextEventMessage txt) \<Rightarrow> True | _ \<Rightarrow> False)"

definition isStatusCommand :: "webhook_event \<Rightarrow> bool" where
  "isStatusCommand e =
     (case e of
        MessageEvent tok (TextEventMessage txt) \<Rightarrow> extractCommand txt = MCSTATUS
      | _ \<Rightarrow> False)"

definition immediateReply :: "webhook_event \<Rightarrow> reply_op option" where
  "immediateReply e =
     (case e of
        MessageEvent tok (TextEventMessage txt) \<Rightarrow>
          Some (ReplyMessage tok
                  (if extractCommand txt = HELP then helpMessage
                   else ''Invalid command. Type /help to get some help''))
      | _ \<Rightarrow> None)"

text \<open>
  Sample collaborators for the concrete instances below: three numbers and a description
  object with their conversions to a string; a game server that does not answer and one
  that answers; the URL parser and the URL validator on the strings of the examples (both
  accept \<^verbatim>\<open>tcp://example.com:25565\<close>; the parser rejects \<^verbatim>\<open>localhost\<close>, which has no
  scheme, and the validator rejects \<^verbatim>\<open>example.com\<close>, which has no protocol and no port);
  and a status snapshot.
\<close>

datatype sample_number = N2 | N20 | N19132

fun numberToString_sample :: "sample_number \<Rightarrow> string" where
  "numberToString_sample N2 = ''2''"
| "numberToString_sample N20 = ''20''"
| "numberToString_sample N19132 = ''19132''"

datatype sample_description = Description string

fun descriptionToString_sample :: "sample_description \<Rightarrow> string" where
  "descriptionToString_sample (Description t) = t"

definition cv_sample :: "(sample_number, sample_description) conversions" where
  "cv_sample =
     \<lparr>numberToString = numberToString_sample,
      descriptionToString = descriptionToString_sample\<rparr>"


definition status_unreachable ::
  "string \<Rightarrow> (sample_number, sample_description) StatusResponse option" where
  "status_unreachable address = None"

definition status_url_unreachable ::
  "string \<Rightarrow> string \<Rightarrow> (sample_number, sample_description) StatusResponse option" where
  "status_url_unreachable h p = None"



definition newURL_sample :: "string \<Rightarrow> URL option" where
  "newURL_sample s =
     (if s = ''tcp://example.com:25565'' then Some (URL ''example.com'' ''25565'') else None)"

definition isURL_sample :: "string \<Rightarrow> bool" where
  "isURL_sample s = (s = ''tcp://example.com:25565'')"

section \<open>Properties of command extraction\<close>

lemma indexOfFrom_found: "indexOfFrom msg needle i \<noteq> - 1 \<longleftrightarrow> sublist needle msg"
proof (induction msg arbitrary: i)
  case Nil
  show ?case by simp
next
  case (Cons c cs)
  show ?case
  proof (cases "prefix needle (c # cs)")
    case True
    then show ?thesis by (simp add: sublist_Cons_right)
  next
    case False
    then show ?thesis using Cons.IH [of "Suc i"] by (simp add: sublist_Cons_right)
  qed
qed

lemma indexOf_found: "indexOf msg needle \<noteq> - 1 \<longleftrightarrow> sublist needle msg"
  unfolding indexOf_def by (rule indexOfFrom_found)

text \<open>
  Claim C4. \<open>extractCommand\<close> is a total function of the text alone, and it classifies
  by substring: a text in which \<^verbatim>\<open>/help\<close> occurs anywhere is HELP; otherwise a text in
  which \<^verbatim>\<open>/mcstatus\<close> occurs anywhere is MCSTATUS (the STATUS command); every other
  text is INVALID. The match compares characters exactly, so it is case-sensitive.
\<close>

theorem extractCommand_substring:
  "extractCommand txt =
     (if sublist ''/help'' txt then HELP
      else if sublist ''/mcstatus'' txt then MCSTATUS
      else INVALID)"
  unfolding extractCommand_def by (simp only: indexOf_found)

lemma extractCommand_examples:
  "extractCommand ''/HELP'' = INVALID"
  "extractCommand ''say /mcstatus then /help'' = HELP"
  "extractCommand ''please /mcstatus now'' = MCSTATUS"
  by code_simp+

lemma extractCommand_mcstatus: "extractCommand ''/mcstatus'' = MCSTATUS"
  by code_simp

section \<open>Properties of the dispatch\<close>

lemma handleWebhookEvent_nonmessage [simp]:
  "handleWebhookEvent r cv st (NonMessageEvent k) = (None, [])"
  by (simp add: handleWebhookEvent_def)

lemma handleWebhookEvent_url_nonmessage [simp]:
  "handleWebhookEvent_url r cv nu st (NonMessageEvent k) = (None, [])"
  by (simp add: handleWebhookEvent_url_def)

lemma handleWebhookEvent_nontext:
  assumes "\<And>txt. msg \<noteq> TextEventMessage txt"
  shows "handleWebhookEvent r cv st (MessageEvent tok msg) = (None, [])"
  using assms by (cases msg) (auto simp add: handleWebhookEvent_def)

lemma handleWebhookEvent_url_nontext:
  assumes "\<And>txt. msg \<noteq> TextEventMessage txt"
  shows "handleWebhookEvent_url r cv nu st (MessageEvent tok msg) = (None, [])"
  using assms by (cases msg) (auto simp add: handleWebhookEvent_url_def)

text \<open>
  The value the mapped function returns: the immediate reply for a text message whose
  command is HELP or INVALID, and \<^verbatim>\<open>undefined\<close> for every other event.
\<close>

lemma handleWebhookEvent_returned:
  "fst (handleWebhookEvent r cv st e) =
     (if isTextMessageEvent e \<and> \<not> isStatusCommand e then immediateReply e else None)"
proof (cases e)
  case (MessageEvent tok msg)
  then show ?thesis
    by (cases msg; cases "extractCommand (case msg of TextEventMessage t \<Rightarrow> t | _ \<Rightarrow> [])")
       (simp_all add: handleWebhookEvent_def isTextMessageEvent_def isStatusCommand_def
          immediateReply_def linePromiseReply_def)
next
  case (NonMessageEvent k)
  then show ?thesis by (simp add: isTextMessageEvent_def)
qed

lemma handleWebhookEvent_url_returned:
  "fst (handleWebhookEvent_url r cv nu st e) =
     (if isTextMessageEvent e \<and> \<not> isStatusCommand e then immediateReply e else None)"
proof (cases e)
  case (MessageEvent tok msg)
  then show ?thesis
    by (cases msg; cases "extractCommand (case msg of TextEventMessage t \<Rightarrow> t | _ \<Rightarrow> [])")
       (simp_all add: handleWebhookEvent_url_def isTextMessageEvent_def isStatusCommand_def
          immediateReply_def linePromiseReply_def)
next
  case (NonMessageEvent k)
  then show ?thesis by (simp add: isTextMessageEvent_def)
qed

lemma immediateReply_text: "isTextMessageEvent e \<Longrightarrow> immediateReply e \<noteq> None"
  by (auto simp: isTextMessageEvent_def immediateReply_def
      split: webhook_event.splits event_message.splits)

lemma webhook_returned:
  "webhook r cv st events =
     filter (\<lambda>v. v \<noteq> None) (map (\<lambda>e. fst (handleWebhookEvent r cv st e)) events)"
  by (simp add: webhook_def handleEvent_def)

lemma webhook_url_returned:
  "webhook_url r cv nu st events =
     filter (\<lambda>v. v \<noteq> None) (map (\<lambda>e. fst (handleWebhookEvent_url r cv nu st e)) events)"
  by (simp add: webhook_url_def handleEvent_url_def)

lemma returned_without_status:
  assumes "\<forall>e\<in>set events. \<not> isStatusCommand e"
    and "\<And>e. f e =
      (if isTextMessageEvent e \<and> \<not> isStatusCommand e then immediateReply e else None)"
  shows "filter (\<lambda>v. v \<noteq> None) (map f events)
    = map immediateReply (filter isTextMessageEvent events)"
  using assms(1)
proof (induction events)
  case Nil
  show ?case by simp
next
  case (Cons e es)
  then show ?case by (simp add: assms(2) immediateReply_text)
qed

text \<open>
  Claim C1. For a STATUS command the reply operation is not returned to the dispatcher:
  the mapped function of \<open>handleEvent\<close> returns \<^verbatim>\<open>undefined\<close> for the event, so the
  webhook route awaits nothing for it, in both variants. The reply is produced only by
  the store callback, which runs detached from the returned array.
\<close>

theorem handleEvent_mcstatus_undefined:
  "handleEvent r cv st [MessageEvent tok (TextEventMessage ''/mcstatus'')]
     = ([None],
        [mcstatusCallback cv st (MessageEvent tok (TextEventMessage ''/mcstatus''))
           (fst (redisGet r ''SERVER_HOSTNAME'')) (snd (redisGet r ''SERVER_HOSTNAME''))])
   \<and> webhook r cv st [MessageEvent tok (TextEventMessage ''/mcstatus'')] = []
   \<and> handleEvent_url r cv nu st' [MessageEvent tok (TextEventMessage ''/mcstatus'')]
     = ([None],
        [mcstatusCallback_url cv nu st' (MessageEvent tok (TextEventMessage ''/mcstatus''))
           (fst (redisGet r ''serverURL'')) (snd (redisGet r ''serverURL''))])
   \<and> webhook_url r cv nu st' [MessageEvent tok (TextEventMessage ''/mcstatus'')] = []"
  by (simp add: webhook_def webhook_url_def handleEvent_def handleEvent_url_def
      handleWebhookEvent_def handleWebhookEvent_url_def extractCommand_mcstatus
      split: prod.split)

text \<open>
  Claim C2, as stated, fails: a message event that carries a sticker is a message event,
  and the dispatch produces no reply operation for it.
\<close>

theorem webhook_count_counterexample:
  "length (webhook \<lparr>store = Map.empty, fault = None\<rparr> cv_sample status_unreachable
             [MessageEvent ''t'' StickerEventMessage])
     \<noteq> length (filter isMessageEvent [MessageEvent ''t'' StickerEventMessage])
   \<and> length (webhook_url \<lparr>store = Map.empty, fault = None\<rparr> cv_sample newURL_sample
               status_url_unreachable [MessageEvent ''t'' StickerEventMessage])
     \<noteq> length (filter isMessageEvent [MessageEvent ''t'' StickerEventMessage])"
  by (simp add: webhook_def webhook_url_def handleEvent_def handleEvent_url_def
      handleWebhookEvent_def handleWebhookEvent_url_def isMessageEvent_def)

text \<open>
  Claim C2, amended. For every input sequence in which no text message is a STATUS
  command, the dispatch produces exactly one reply operation per text-message event, the
  immediate reply of that event, in the order of the input events, and none for
  non-message events and for message events without a text. In particular the number of
  reply operations is the number of text-message events. This holds in both variants.
\<close>

theorem webhook_text_replies:
  assumes "\<forall>e\<in>set events. \<not> isStatusCommand e"
  shows "webhook r cv st events = map immediateReply (filter isTextMessageEvent events)
    \<and> webhook_url r cv nu st' events = map immediateReply (filter isTextMessageEvent events)
    \<and> length (webhook r cv st events) = length (filter isTextMessageEvent events)
    \<and> length (webhook_url r cv nu st' events) = length (filter isTextMessageEvent events)"
proof -
  have a: "webhook r cv st events = map immediateReply (filter isTextMessageEvent events)"
    unfolding webhook_returned
    by (rule returned_without_status [OF assms]) (rule handleWebhookEvent_returned)
  have b: "webhook_url r cv nu st' events = map immediateReply (filter isTextMessageEvent events)"
    unfolding webhook_url_returned
    by (rule returned_without_status [OF assms]) (rule handleWebhookEvent_url_returned)
  show ?thesis by (simp add: a b)
qed

theorem webhook_text_replies_witness:
  "webhook \<lparr>store = Map.empty, fault = None\<rparr> cv_sample status_unreachable
     [NonMessageEvent Follow, MessageEvent ''t1'' (TextEventMessage ''/help me''),
      MessageEvent ''t2'' StickerEventMessage, MessageEvent ''t3'' (TextEventMessage ''hello'')]
   = [Some (ReplyMessage ''t1'' helpMessage),
      Some (ReplyMessage ''t3'' ''Invalid command. Type /help to get some help'')]"
proof -
  let ?evs = "[NonMessageEvent Follow, MessageEvent ''t1'' (TextEventMessage ''/help me''),
      MessageEvent ''t2'' StickerEventMessage, MessageEvent ''t3'' (TextEventMessage ''hello'')]"
  have c1: "extractCommand ''/help me'' = HELP" by code_simp
  have c2: "extractCommand ''hello'' = INVALID" by code_simp
  have h: "\<forall>e\<in>set ?evs. \<not> isStatusCommand e"
    by (simp add: isStatusCommand_def c1 c2)
  show ?thesis
    using webhook_text_replies [OF h, where r = "\<lparr>store = Map.empty, fault = None\<rparr>"
        and cv = cv_sample and st = status_unreachable]
    by (simp add: isTextMessageEvent_def immediateReply_def c1 c2)
qed

subsection \<open>Messages without a text\<close>

lemma mcstatusCallback_token:
  "mcstatusCallback cv st ev err reply = Inr op \<Longrightarrow> op_token op = replyToken ev"
  by (auto simp add: mcstatusCallback_def linePromiseReply_def split: option.splits if_splits)

lemma mcstatusCallback_url_token:
  "mcstatusCallback_url cv nu st ev err reply = Inr op \<Longrightarrow> op_token op = replyToken ev"
  by (auto simp add: mcstatusCallback_url_def linePromiseReply_def
      split: option.splits if_splits)

lemma returned_from_text:
  assumes "fst (handleWebhookEvent r cv st e) = Some op"
  shows "\<exists>txt. e = MessageEvent (op_token op) (TextEventMessage txt)"
  using assms unfolding handleWebhookEvent_returned
  by (auto simp add: immediateReply_def
      split: if_splits webhook_event.splits event_message.splits)

lemma returned_url_from_text:
  assumes "fst (handleWebhookEvent_url r cv nu st e) = Some op"
  shows "\<exists>txt. e = MessageEvent (op_token op) (TextEventMessage txt)"
  using assms unfolding handleWebhookEvent_url_returned
  by (auto simp add: immediateReply_def
      split: if_splits webhook_event.splits event_message.splits)

lemma callback_from_text:
  assumes "Inr op \<in> set (snd (handleWebhookEvent r cv st e))"
  shows "\<exists>txt. e = MessageEvent (op_token op) (TextEventMessage txt)"
proof (cases e)
  case (MessageEvent tok msg)
  show ?thesis
  proof (cases msg)
    case (TextEventMessage body_text)
    show ?thesis
    proof (cases "extractCommand body_text")
      case MCSTATUS
      with assms MessageEvent TextEventMessage
      have "mcstatusCallback cv st e (fst (redisGet r ''SERVER_HOSTNAME''))
              (snd (redisGet r ''SERVER_HOSTNAME'')) = Inr op"
        by (simp add: handleWebhookEvent_def split: prod.splits)
      from mcstatusCallback_token [OF this] MessageEvent TextEventMessage
      show ?thesis by simp
    qed (use assms MessageEvent TextEventMessage in \<open>simp_all add: handleWebhookEvent_def\<close>)
  qed (use assms MessageEvent in \<open>simp_all add: handleWebhookEvent_def\<close>)
next
  case (NonMessageEvent k)
  with assms show ?thesis by simp
qed

lemma callback_url_from_text:
  assumes "Inr op \<in> set (snd (handleWebhookEvent_url r cv nu st e))"
  shows "\<exists>txt. e = MessageEvent (op_token op) (TextEventMessage txt)"
proof (cases e)
  case (MessageEvent tok msg)
  show ?thesis
  proof (cases msg)
    case (TextEventMessage body_text)
    show ?thesis
    proof (cases "extractCommand body_text")
      case MCSTATUS
      with assms MessageEvent TextEventMessage
      have "mcstatusCallback_url cv nu st e (fst (redisGet r ''serverURL''))
              (snd (redisGet r ''serverURL'')) = Inr op"
        by (simp add: handleWebhookEvent_url_def split: prod.splits)
      from mcstatusCallback_url_token [OF this] MessageEvent TextEventMessage
      show ?thesis by simp
    qed (use assms MessageEvent TextEventMessage in
        \<open>simp_all add: handleWebhookEvent_url_def\<close>)
  qed (use assms MessageEvent in \<open>simp_all add: handleWebhookEvent_url_def\<close>)
next
  case (NonMessageEvent k)
  with assms show ?thesis by simp
qed

lemma replies_from_text_messages:
  assumes "Some op \<in> set (fst (handleEvent r cv st events))
      \<or> Inr op \<in> set (snd (handleEvent r cv st events))"
  shows "\<exists>txt. MessageEvent (op_token op) (TextEventMessage txt) \<in> set events"
proof -
  from assms consider
      e where "e \<in> set events" "fst (handleWebhookEvent r cv st e) = Some op"
    | e where "e \<in> set events" "Inr op \<in> set (snd (handleWebhookEvent r cv st e))"
    by (auto simp add: handleEvent_def)
  then show ?thesis
  proof cases
    case 1
    with returned_from_text [OF 1(2)] show ?thesis by auto
  next
    case 2
    with callback_from_text [OF 2(2)] show ?thesis by auto
  qed
qed

lemma replies_url_from_text_messages:
  assumes "Some op \<in> set (fst (handleEvent_url r cv nu st events))
      \<or> Inr op \<in> set (snd (handleEvent_url r cv nu st events))"
  shows "\<exists>txt. MessageEvent (op_token op) (TextEventMessage txt) \<in> set events"
proof -
  from assms consider
      e where "e \<in> set events" "fst (handleWebhookEvent_url r cv nu st e) = Some op"
    | e where "e \<in> set events" "Inr op \<in> set (snd (handleWebhookEvent_url r cv nu st e))"
    by (auto simp add: handleEvent_url_def)
  then show ?thesis
  proof cases
    case 1
    with returned_url_from_text [OF 1(2)] show ?thesis by auto
  next
    case 2
    with callback_url_from_text [OF 2(2)] show ?thesis by auto
  qed
qed

text \<open>
  Claim C10. A message event whose message is not a text message produces no reply
  operation at all, exactly as an event of another type: the mapped function returns
  \<^verbatim>\<open>undefined\<close> and registers no callback, so removing the event from the input
  changes neither the returned array's awaited entries nor the callbacks. Every reply
  operation that is returned or sent from a callback carries the reply token of a
  text-message event of the input. This holds in both variants.
\<close>

theorem nontext_message_no_reply:
  assumes "\<forall>txt. msg \<noteq> TextEventMessage txt"
  shows "handleEvent r cv st [MessageEvent tok msg] = ([None], [])
    \<and> handleEvent_url r cv nu st' [MessageEvent tok msg] = ([None], [])
    \<and> webhook r cv st (before @ MessageEvent tok msg # after) = webhook r cv st (before @ after)
    \<and> snd (handleEvent r cv st (before @ MessageEvent tok msg # after))
        = snd (handleEvent r cv st (before @ after))
    \<and> webhook_url r cv nu st' (before @ MessageEvent tok msg # after)
        = webhook_url r cv nu st' (before @ after)
    \<and> snd (handleEvent_url r cv nu st' (before @ MessageEvent tok msg # after))
        = snd (handleEvent_url r cv nu st' (before @ after))
    \<and> (Some op \<in> set (fst (handleEvent r cv st events))
          \<or> Inr op \<in> set (snd (handleEvent r cv st events))
        \<longrightarrow> (\<exists>txt. MessageEvent (op_token op) (TextEventMessage txt) \<in> set events))
    \<and> (Some op \<in> set (fst (handleEvent_url r cv nu st' events))
          \<or> Inr op \<in> set (snd (handleEvent_url r cv nu st' events))
        \<longrightarrow> (\<exists>txt. MessageEvent (op_token op) (TextEventMessage txt) \<in> set events))"
proof -
  from assms have a: "handleWebhookEvent r cv st (MessageEvent tok msg) = (None, [])"
    by (intro handleWebhookEvent_nontext) simp
  from assms have b: "handleWebhookEvent_url r cv nu st' (MessageEvent tok msg) = (None, [])"
    by (intro handleWebhookEvent_url_nontext) simp
  have c: "Some op \<in> set (fst (handleEvent r cv st events))
          \<or> Inr op \<in> set (snd (handleEvent r cv st events))
        \<longrightarrow> (\<exists>txt. MessageEvent (op_token op) (TextEventMessage txt) \<in> set events)"
    by (rule impI) (rule replies_from_text_messages)
  have d: "Some op \<in> set (fst (handleEvent_url r cv nu st' events))
          \<or> Inr op \<in> set (snd (handleEvent_url r cv nu st' events))
        \<longrightarrow> (\<exists>txt. MessageEvent (op_token op) (TextEventMessage txt) \<in> set events)"
    by (rule impI) (rule replies_url_from_text_messages)
  have e: "handleEvent r cv st [MessageEvent tok msg] = ([None], [])
    \<and> handleEvent_url r cv nu st' [MessageEvent tok msg] = ([None], [])
    \<and> webhook r cv st (before @ MessageEvent tok msg # after) = webhook r cv st (before @ after)
    \<and> snd (handleEvent r cv st (before @ MessageEvent tok msg # after))
        = snd (handleEvent r cv st (before @ after))
    \<and> webhook_url r cv nu st' (before @ MessageEvent tok msg # after)
        = webhook_url r cv nu st' (before @ after)
    \<and> snd (handleEvent_url r cv nu st' (before @ MessageEvent tok msg # after))
        = snd (handleEvent_url r cv nu st' (before @ after))"
    by (simp add: webhook_def webhook_url_def handleEvent_def handleEvent_url_def a b)
  from e c d show ?thesis by (intro conjI) (simp_all only:)
qed

theorem nontext_message_no_reply_witness:
  "handleEvent \<lparr>store = Map.empty, fault = None\<rparr> cv_sample status_unreachable
       [MessageEvent ''t'' ImageEventMessage] = ([None], [])
   \<and> webhook \<lparr>store = Map.empty, fault = None\<rparr> cv_sample status_unreachable
       [MessageEvent ''s'' (TextEventMessage ''/help''), MessageEvent ''t'' ImageEventMessage]
     = webhook \<lparr>store = Map.empty, fault = None\<rparr> cv_sample status_unreachable
       [MessageEvent ''s'' (TextEventMessage ''/help'')]
   \<and> webhook_url \<lparr>store = Map.empty, fault = None\<rparr> cv_sample newURL_sample status_url_unreachable
       [MessageEvent ''s'' (TextEventMessage ''/help''), MessageEvent ''t'' ImageEventMessage]
     = webhook_url \<lparr>store = Map.empty, fault = None\<rparr> cv_sample newURL_sample status_url_unreachable
       [MessageEvent ''s'' (TextEventMessage ''/help'')]"
proof -
  have h: "\<forall>txt. ImageEventMessage \<noteq> TextEventMessage txt" by simp
  show ?thesis
    using nontext_message_no_reply [OF h, where r = "\<lparr>store = Map.empty, fault = None\<rparr>"
        and cv = cv_sample and st = status_unreachable and tok = "''t''"
        and nu = newURL_sample and st' = status_url_unreachable
        and before = "[MessageEvent ''s'' (TextEventMessage ''/help'')]" and after = "[]"]
    by simp
qed

section \<open>Properties of the STATUS path\<close>











text \<open>
  The general form of the failure of the URL variant: a stored string that the URL parser
  rejects makes the callback throw, whatever the status query would answer.
\<close>

lemma mcstatusCallback_url_unparseable:
  "nu s = None \<Longrightarrow> mcstatusCallback_url cv nu st' ev None (Some s) = Inl TypeError"
  by (simp add: mcstatusCallback_url_def)

text \<open>
  Claim C5. In the URL variant a stored string that is not parseable as a URL does not
  end in an error-coded reply: the \<^verbatim>\<open>TypeError\<close> of the URL constructor leaves the store
  callback and no reply is sent. Here the stored value is \<^verbatim>\<open>localhost\<close>.
\<close>

theorem mcstatus_unparseable_throws:
  "mcstatusCallback_url cv newURL_sample st' ev None (Some ''localhost'') = Inl TypeError
   \<and> handleEvent_url \<lparr>store = [''serverURL'' \<mapsto> ''localhost''], fault = None\<rparr>
       cv newURL_sample st' [MessageEvent tok (TextEventMessage ''/mcstatus'')]
     = ([None], [Inl TypeError])"
  by (simp add: mcstatusCallback_url_def newURL_sample_def handleEvent_url_def
      handleWebhookEvent_url_def extractCommand_mcstatus redisGet_def)

section \<open>Properties of the status formatting\<close>










section \<open>Properties of the registration\<close>

lemma auth_rejected:
  assumes "authorization req = None \<or> authorization req \<noteq> AUTH_KEY"
  shows "authMiddleware AUTH_KEY req res0
     = (\<lparr>statusCode = 400,
         sent = Some (Send (if authorization req = None then ''Undefined auth header''
                            else ''Invalid auth header''))\<rparr>, False)"
  using assms by (auto simp add: authMiddleware_def res_send_def res_status_def res0_def)

lemma auth_accepted:
  assumes "authorization req \<noteq> None" and "authorization req = AUTH_KEY"
  shows "authMiddleware AUTH_KEY req res0 = (res0, True)"
  using assms by (simp add: authMiddleware_def)

lemma serverHostnameErrors_iff:
  "serverHostnameErrors req \<noteq> [] \<longleftrightarrow> fieldValue req ''serverHostname'' = []"
  by (simp add: serverHostnameErrors_def isEmpty_def)

lemma serverURLErrors_iff:
  "serverURLErrors isURL req \<noteq> []
     \<longleftrightarrow> fieldValue req ''serverURL'' = [] \<or> \<not> isURL (fieldValue req ''serverURL'')"
  by (simp add: serverURLErrors_def isEmpty_def)

text \<open>
  Claim C7, as stated, fails. The hostname variant accepts an address without a port and
  writes it to the store; and a request that fails the validation is answered with the
  status code 200, not with a code of the 400 class.
\<close>

theorem hostname_without_port_counterexample:
  "CHR '':'' \<notin> set ''localhost''
   \<and> setServerHostname (Some ''secret'') \<lparr>store = Map.empty, fault = None\<rparr>
       \<lparr>authorization = Some ''secret'', body = [''serverHostname'' \<mapsto> ''localhost'']\<rparr>
     = (\<lparr>statusCode = 200, sent = Some (Send ''OK'')\<rparr>,
        \<lparr>store = [''SERVER_HOSTNAME'' \<mapsto> ''localhost''], fault = None\<rparr>)
   \<and> statusCode (fst (setServerHostname (Some ''secret'') \<lparr>store = Map.empty, fault = None\<rparr>
       \<lparr>authorization = Some ''secret'', body = Map.empty\<rparr>)) = 200
   \<and> statusCode (fst (serverURL (Some ''secret'') isURL_sample
       \<lparr>store = Map.empty, fault = None\<rparr>
       \<lparr>authorization = Some ''secret'', body = [''serverURL'' \<mapsto> ''example.com'']\<rparr>)) = 200"
  by (simp add: setServerHostname_def serverURL_def authMiddleware_def
      serverHostnameValidation_def serverHostnameErrors_def
      serverURLValidation_def serverURLErrors_def isURL_sample_def
      fieldValue_def isEmpty_def redisSet_def
      setCallback_def res_send_def res_json_def res0_def)

text \<open>
  Claim C7, amended. The registration requires the submitted address to be non-empty;
  the URL variant requires in addition that it passes the URL validator (protocol
  \<^verbatim>\<open>tcp\<close>, host and port required), while the hostname variant checks nothing else. On
  any validation failure the store is not written, and an authenticated request is
  answered with the list of the violated rules.
\<close>

theorem validation_failure_no_write:
  "(serverHostnameErrors req \<noteq> [] \<longleftrightarrow> fieldValue req ''serverHostname'' = [])
   \<and> (serverURLErrors isURL req \<noteq> []
        \<longleftrightarrow> fieldValue req ''serverURL'' = [] \<or> \<not> isURL (fieldValue req ''serverURL''))
   \<and> (serverHostnameErrors req \<noteq> [] \<longrightarrow>
        snd (setServerHostname AUTH_KEY r req) = r
        \<and> (authorization req \<noteq> None \<and> authorization req = AUTH_KEY \<longrightarrow>
             sent (fst (setServerHostname AUTH_KEY r req))
               = Some (Json (serverHostnameErrors req))))
   \<and> (serverURLErrors isURL req \<noteq> [] \<longrightarrow>
        snd (serverURL AUTH_KEY isURL r req) = r
        \<and> (authorization req \<noteq> None \<and> authorization req = AUTH_KEY \<longrightarrow>
             sent (fst (serverURL AUTH_KEY isURL r req))
               = Some (Json (serverURLErrors isURL req))))"
proof -
  have h: "snd (setServerHostname AUTH_KEY r req) = r
      \<and> (authorization req \<noteq> None \<and> authorization req = AUTH_KEY \<longrightarrow>
           sent (fst (setServerHostname AUTH_KEY r req))
             = Some (Json (serverHostnameErrors req)))"
    if "serverHostnameErrors req \<noteq> []"
  proof (cases "authorization req \<noteq> None \<and> authorization req = AUTH_KEY")
    case True
    then have am: "authMiddleware AUTH_KEY req res0 = (res0, True)"
      by (intro auth_accepted) auto
    show ?thesis using that
      by (simp add: setServerHostname_def am serverHostnameValidation_def res_json_def)
  next
    case False
    then have d: "authorization req = None \<or> authorization req \<noteq> AUTH_KEY" by blast
    have "snd (setServerHostname AUTH_KEY r req) = r"
      by (simp add: setServerHostname_def auth_rejected [OF d])
    then show ?thesis using False by blast
  qed
  have u: "snd (serverURL AUTH_KEY isURL r req) = r
      \<and> (authorization req \<noteq> None \<and> authorization req = AUTH_KEY \<longrightarrow>
           sent (fst (serverURL AUTH_KEY isURL r req))
             = Some (Json (serverURLErrors isURL req)))"
    if "serverURLErrors isURL req \<noteq> []"
  proof (cases "authorization req \<noteq> None \<and> authorization req = AUTH_KEY")
    case True
    then have am: "authMiddleware AUTH_KEY req res0 = (res0, True)"
      by (intro auth_accepted) auto
    show ?thesis using that
      by (simp add: serverURL_def am serverURLValidation_def res_json_def)
  next
    case False
    then have d: "authorization req = None \<or> authorization req \<noteq> AUTH_KEY" by blast
    have "snd (serverURL AUTH_KEY isURL r req) = r"
      by (simp add: serverURL_def auth_rejected [OF d])
    then show ?thesis using False by blast
  qed
  show ?thesis
  proof (intro conjI)
    show "serverHostnameErrors req \<noteq> [] \<longleftrightarrow> fieldValue req ''serverHostname'' = []"
      by (rule serverHostnameErrors_iff)
    show "serverURLErrors isURL req \<noteq> []
        \<longleftrightarrow> fieldValue req ''serverURL'' = [] \<or> \<not> isURL (fieldValue req ''serverURL'')"
      by (rule serverURLErrors_iff)
    show "serverHostnameErrors req \<noteq> [] \<longrightarrow>
        snd (setServerHostname AUTH_KEY r req) = r
        \<and> (authorization req \<noteq> None \<and> authorization req = AUTH_KEY \<longrightarrow>
             sent (fst (setServerHostname AUTH_KEY r req))
               = Some (Json (serverHostnameErrors req)))"
      by (rule impI) (rule h)
    show "serverURLErrors isURL req \<noteq> [] \<longrightarrow>
        snd (serverURL AUTH_KEY isURL r req) = r
        \<and> (authorization req \<noteq> None \<and> authorization req = AUTH_KEY \<longrightarrow>
             sent (fst (serverURL AUTH_KEY isURL r req))
               = Some (Json (serverURLErrors isURL req)))"
      by (rule impI) (rule u)
  qed
qed

theorem validation_failure_no_write_witness:
  "snd (setServerHostname (Some ''secret'')
       \<lparr>store = [''SERVER_HOSTNAME'' \<mapsto> ''old.example.com''], fault = None\<rparr>
       \<lparr>authorization = Some ''secret'', body = [''serverHostname'' \<mapsto> []]\<rparr>)
     = \<lparr>store = [''SERVER_HOSTNAME'' \<mapsto> ''old.example.com''], fault = None\<rparr>
   \<and> sent (fst (setServerHostname (Some ''secret'')
       \<lparr>store = [''SERVER_HOSTNAME'' \<mapsto> ''old.example.com''], fault = None\<rparr>
       \<lparr>authorization = Some ''secret'', body = [''serverHostname'' \<mapsto> []]\<rparr>))
     = Some (Json [ValidationError ''serverHostname'' ''Please provide server hostname''])
   \<and> snd (serverURL (Some ''secret'') isURL_sample
       \<lparr>store = [''serverURL'' \<mapsto> ''tcp://old.example.com:25565''], fault = None\<rparr>
       \<lparr>authorization = Some ''secret'', body = [''serverURL'' \<mapsto> ''example.com'']\<rparr>)
     = \<lparr>store = [''serverURL'' \<mapsto> ''tcp://old.example.com:25565''], fault = None\<rparr>
   \<and> sent (fst (serverURL (Some ''secret'') isURL_sample
       \<lparr>store = [''serverURL'' \<mapsto> ''tcp://old.example.com:25565''], fault = None\<rparr>
       \<lparr>authorization = Some ''secret'', body = [''serverURL'' \<mapsto> ''example.com'']\<rparr>))
     = Some (Json [ValidationError ''serverURL''
                     ''Please provide a valid Minecraft server URL''])"
proof -
  let ?reqA = "\<lparr>authorization = Some ''secret'', body = [''serverHostname'' \<mapsto> []]\<rparr>"
  let ?reqB = "\<lparr>authorization = Some ''secret'',
      body = [''serverURL'' \<mapsto> ''example.com'']\<rparr>"
  let ?rA = "\<lparr>store = [''SERVER_HOSTNAME'' \<mapsto> ''old.example.com''], fault = None\<rparr>"
  let ?rB = "\<lparr>store = [''serverURL'' \<mapsto> ''tcp://old.example.com:25565''], fault = None\<rparr>"
  have eA: "serverHostnameErrors ?reqA
      = [ValidationError ''serverHostname'' ''Please provide server hostname'']"
    by (simp add: serverHostnameErrors_def fieldValue_def isEmpty_def)
  have eB: "serverURLErrors isURL_sample ?reqB
      = [ValidationError ''serverURL'' ''Please provide a valid Minecraft server URL'']"
    by (simp add: serverURLErrors_def fieldValue_def isEmpty_def isURL_sample_def)
  note t = validation_failure_no_write [of ?reqA isURL_sample "Some ''secret''" ?rA]
    validation_failure_no_write [of ?reqB isURL_sample "Some ''secret''" ?rB]
  have "snd (setServerHostname (Some ''secret'') ?rA ?reqA) = ?rA
      \<and> sent (fst (setServerHostname (Some ''secret'') ?rA ?reqA))
          = Some (Json [ValidationError ''serverHostname'' ''Please provide server hostname''])"
    using t(1) by (simp add: eA)
  moreover have "snd (serverURL (Some ''secret'') isURL_sample ?rB ?reqB) = ?rB
      \<and> sent (fst (serverURL (Some ''secret'') isURL_sample ?rB ?reqB))
          = Some (Json [ValidationError ''serverURL''
                          ''Please provide a valid Minecraft server URL''])"
    using t(2) by (simp add: eB)
  ultimately show ?thesis by simp
qed

text \<open>
  Claim C8. A registration request whose authorization header is missing or differs from
  the pre-shared secret is rejected with the status code 400, and the store is left as
  it was, in both variants.
\<close>

theorem auth_failure_rejected:
  assumes "authorization req = None \<or> authorization req \<noteq> AUTH_KEY"
  shows "statusCode (fst (setServerHostname AUTH_KEY r req)) = 400
    \<and> snd (setServerHostname AUTH_KEY r req) = r
    \<and> statusCode (fst (serverURL AUTH_KEY isURL r req)) = 400
    \<and> snd (serverURL AUTH_KEY isURL r req) = r"
proof -
  let ?res = "\<lparr>statusCode = 400,
      sent = Some (Send (if authorization req = None then ''Undefined auth header''
                         else ''Invalid auth header''))\<rparr>"
  have stop: "authMiddleware AUTH_KEY req res0 = (?res, False)"
    by (rule auth_rejected [OF assms])
  have a: "setServerHostname AUTH_KEY r req = (?res, r)"
    by (simp add: setServerHostname_def stop)
  have b: "serverURL AUTH_KEY isURL r req = (?res, r)"
    by (simp add: serverURL_def stop)
  show ?thesis by (simp add: a b)
qed

theorem auth_failure_rejected_witness:
  "statusCode (fst (setServerHostname (Some ''secret'')
       \<lparr>store = [''SERVER_HOSTNAME'' \<mapsto> ''old.example.com''], fault = None\<rparr>
       \<lparr>authorization = Some ''guess'',
          body = [''serverHostname'' \<mapsto> ''new.example.com'']\<rparr>)) = 400
   \<and> redisGet (snd (setServerHostname (Some ''secret'')
       \<lparr>store = [''SERVER_HOSTNAME'' \<mapsto> ''old.example.com''], fault = None\<rparr>
       \<lparr>authorization = Some ''guess'',
          body = [''serverHostname'' \<mapsto> ''new.example.com'']\<rparr>))
       ''SERVER_HOSTNAME'' = (None, Some ''old.example.com'')
   \<and> statusCode (fst (serverURL (Some ''secret'') isURL_sample
       \<lparr>store = [''serverURL'' \<mapsto> ''tcp://old.example.com:25565''], fault = None\<rparr>
       \<lparr>authorization = None,
          body = [''serverURL'' \<mapsto> ''tcp://example.com:25565'']\<rparr>)) = 400
   \<and> redisGet (snd (serverURL (Some ''secret'') isURL_sample
       \<lparr>store = [''serverURL'' \<mapsto> ''tcp://old.example.com:25565''], fault = None\<rparr>
       \<lparr>authorization = None,
          body = [''serverURL'' \<mapsto> ''tcp://example.com:25565'']\<rparr>))
       ''serverURL'' = (None, Some ''tcp://old.example.com:25565'')"
  using auth_failure_rejected [of "\<lparr>authorization = Some ''guess'',
          body = [''serverHostname'' \<mapsto> ''new.example.com'']\<rparr>" "Some ''secret''"
        "\<lparr>store = [''SERVER_HOSTNAME'' \<mapsto> ''old.example.com''], fault = None\<rparr>"
        isURL_sample]
    auth_failure_rejected [of "\<lparr>authorization = None,
          body = [''serverURL'' \<mapsto> ''tcp://example.com:25565'']\<rparr>" "Some ''secret''"
        "\<lparr>store = [''serverURL'' \<mapsto> ''tcp://old.example.com:25565''], fault = None\<rparr>"
        isURL_sample]
  by (simp add: redisGet_def)

text \<open>
  Claim C9. A request that passes authentication and validation and whose store write
  fails is answered with the text \<^verbatim>\<open>Server Error\<close> under the status code 200, in both
  variants: \<^verbatim>\<open>res.header(500)\<close> does not set the status code.
\<close>

theorem store_failure_status_200:
  "setServerHostname (Some k) \<lparr>store = m, fault = Some e\<rparr>
     \<lparr>authorization = Some k, body = [''serverHostname'' \<mapsto> ''example.com:25565'']\<rparr>
     = (\<lparr>statusCode = 200, sent = Some (Send ''Server Error'')\<rparr>,
        \<lparr>store = m, fault = Some e\<rparr>)
   \<and> serverURL (Some k) isURL_sample \<lparr>store = m, fault = Some e\<rparr>
     \<lparr>authorization = Some k, body = [''serverURL'' \<mapsto> ''tcp://example.com:25565'']\<rparr>
     = (\<lparr>statusCode = 200, sent = Some (Send ''Server Error'')\<rparr>,
        \<lparr>store = m, fault = Some e\<rparr>)"
  by (simp add: setServerHostname_def serverURL_def authMiddleware_def
      serverHostnameValidation_def serverURLValidation_def serverHostnameErrors_def
      serverURLErrors_def isURL_sample_def fieldValue_def isEmpty_def redisSet_def
      setCallback_def res_send_def res_header_number_def res0_def)

end
